theory Spec2Isabelle
  imports Complex_Main "HOL-Library.AList"
begin

section \<open>JavaScript values\<close>

text \<open>
  A JavaScript number is a double. The model keeps the three non-finite values apart and
  takes a finite value as the real number it denotes, so finite arithmetic is exact (no
  rounding, no overflow, \<open>-0\<close> identified with \<open>0\<close>).
\<close>

datatype number = NaN | NegInf | Fin real | PosInf

text \<open>The relational operators: every comparison with \<open>NaN\<close> is false.\<close>

fun js_lt :: "number \<Rightarrow> number \<Rightarrow> bool" where
  "js_lt NaN _ = False"
| "js_lt _ NaN = False"
| "js_lt (Fin a) (Fin b) = (a < b)"
| "js_lt _ NegInf = False"
| "js_lt NegInf _ = True"
| "js_lt PosInf _ = False"
| "js_lt _ PosInf = True"

definition js_gt :: "number \<Rightarrow> number \<Rightarrow> bool" where
  "js_gt a b = js_lt b a"

definition js_le :: "number \<Rightarrow> number \<Rightarrow> bool" where
  "js_le a b = (a \<noteq> NaN \<and> b \<noteq> NaN \<and> \<not> js_lt b a)"

definition js_ge :: "number \<Rightarrow> number \<Rightarrow> bool" where
  "js_ge a b = js_le b a"

fun js_neg :: "number \<Rightarrow> number" where
  "js_neg NaN = NaN"
| "js_neg NegInf = PosInf"
| "js_neg (Fin a) = Fin (- a)"
| "js_neg PosInf = NegInf"

fun js_sub :: "number \<Rightarrow> number \<Rightarrow> number" where
  "js_sub NaN _ = NaN"
| "js_sub _ NaN = NaN"
| "js_sub (Fin a) (Fin b) = Fin (a - b)"
| "js_sub (Fin a) PosInf = NegInf"
| "js_sub (Fin a) NegInf = PosInf"
| "js_sub PosInf PosInf = NaN"
| "js_sub PosInf _ = PosInf"
| "js_sub NegInf NegInf = NaN"
| "js_sub NegInf _ = NegInf"

fun js_add :: "number \<Rightarrow> number \<Rightarrow> number" where
  "js_add NaN _ = NaN"
| "js_add _ NaN = NaN"
| "js_add (Fin a) (Fin b) = Fin (a + b)"
| "js_add (Fin a) i = i"
| "js_add i (Fin b) = i"
| "js_add PosInf NegInf = NaN"
| "js_add NegInf PosInf = NaN"
| "js_add i _ = i"

text \<open>
  Division: a finite quotient is exact; a zero divisor gives \<open>NaN\<close> for \<open>0 / 0\<close> and an
  infinity otherwise (the divisor's zero taken as \<open>+0\<close>).
\<close>

fun js_div :: "number \<Rightarrow> number \<Rightarrow> number" where
  "js_div NaN _ = NaN"
| "js_div _ NaN = NaN"
| "js_div (Fin a) (Fin b) =
     (if b = 0 then (if a = 0 then NaN else if 0 < a then PosInf else NegInf) else Fin (a / b))"
| "js_div (Fin a) _ = Fin 0"
| "js_div PosInf (Fin b) = (if b < 0 then NegInf else PosInf)"
| "js_div NegInf (Fin b) = (if b < 0 then PosInf else NegInf)"
| "js_div _ _ = NaN"

text \<open>\<open>Math.max(a, b)\<close> and \<open>Math.min(a, b)\<close>: \<open>NaN\<close> when an argument is \<open>NaN\<close>.\<close>

definition Math_max :: "number \<Rightarrow> number \<Rightarrow> number" where
  "Math_max a b = (if a = NaN \<or> b = NaN then NaN else if js_lt a b then b else a)"

definition Math_min :: "number \<Rightarrow> number \<Rightarrow> number" where
  "Math_min a b = (if a = NaN \<or> b = NaN then NaN else if js_lt b a then b else a)"

text \<open>Truthiness of a number, and \<open>a || b\<close> on numbers: \<open>0\<close> and \<open>NaN\<close> are falsy.\<close>

definition truthy :: "number \<Rightarrow> bool" where
  "truthy n = (n \<noteq> NaN \<and> n \<noteq> Fin 0)"

definition js_or :: "number \<Rightarrow> number \<Rightarrow> number" where
  "js_or a b = (if truthy a then a else b)"

text \<open>
  A value of type \<open>unknown\<close>, as \<open>JSON.parse\<close> of a backend body delivers it. A string is
  a list of code units below 256.
\<close>

datatype jsval =
    JUndefined
  | JNull
  | JBool bool
  | JNum number
  | JStr string
  | JArr "jsval list"
  | JObj "(string \<times> jsval) list"

text \<open>\<open>a ?? b\<close>: the right operand when the left one is \<open>undefined\<close> or \<open>null\<close>.\<close>

definition nullish :: "jsval \<Rightarrow> jsval \<Rightarrow> jsval" where
  "nullish a b = (if a = JUndefined \<or> a = JNull then b else a)"

text \<open>
  A \<open>Record<string, unknown>\<close> is a finite map; reading a key that is not there gives
  \<open>undefined\<close>.
\<close>

type_synonym payload = "string \<rightharpoonup> jsval"

definition getProp :: "payload \<Rightarrow> string \<Rightarrow> jsval" where
  "getProp p k = (case p k of None \<Rightarrow> JUndefined | Some v \<Rightarrow> v)"

subsection \<open>The built-ins \<open>String.prototype.trim\<close> and \<open>Number\<close> on a string\<close>

text \<open>
  White space and line terminators among the code units below 256: TAB, LF, VT, FF, CR,
  SP and NBSP.
\<close>

definition isStrWhiteSpaceChar :: "char \<Rightarrow> bool" where
  "isStrWhiteSpaceChar c = (of_char c \<in> {9, 10, 11, 12, 13, 32, 160 :: nat})"

definition trim :: "string \<Rightarrow> string" where
  "trim s = rev (dropWhile isStrWhiteSpaceChar (rev (dropWhile isStrWhiteSpaceChar s)))"

definition digitValue :: "char \<Rightarrow> nat option" where
  "digitValue c =
     (let n = of_char c :: nat in
      if 48 \<le> n \<and> n \<le> 57 then Some (n - 48)
      else if 97 \<le> n \<and> n \<le> 102 then Some (n - 87)
      else if 65 \<le> n \<and> n \<le> 70 then Some (n - 55)
      else None)"

definition isDigitOf :: "nat \<Rightarrow> char \<Rightarrow> bool" where
  "isDigitOf base c = (case digitValue c of None \<Rightarrow> False | Some d \<Rightarrow> d < base)"

definition digitsValue :: "nat \<Rightarrow> string \<Rightarrow> nat" where
  "digitsValue base ds = foldl (\<lambda>acc c. acc * base + (case digitValue c of None \<Rightarrow> 0 | Some d \<Rightarrow> d)) 0 ds"

text \<open>A non-empty run of digits of the base, and nothing else.\<close>

definition wholeDigits :: "nat \<Rightarrow> string \<Rightarrow> nat option" where
  "wholeDigits base ds =
     (if ds \<noteq> [] \<and> list_all (isDigitOf base) ds then Some (digitsValue base ds) else None)"

text \<open>\<open>SignedInteger\<close> of an exponent part.\<close>

definition SignedInteger :: "string \<Rightarrow> int option" where
  "SignedInteger s =
     (case s of
        [] \<Rightarrow> None
      | c # r \<Rightarrow>
          if c = CHR ''+'' then map_option int (wholeDigits 10 r)
          else if c = CHR ''-'' then map_option (\<lambda>n. - int n) (wholeDigits 10 r)
          else map_option int (wholeDigits 10 s))"

definition scale10 :: "real \<Rightarrow> int \<Rightarrow> real" where
  "scale10 v e = (if 0 \<le> e then v * 10 ^ nat e else v / 10 ^ nat (- e))"

text \<open>
  \<open>StrUnsignedDecimalLiteral\<close>: \<open>Infinity\<close>, or digits with an optional fraction and an
  optional exponent; at least one digit before or after the point.
\<close>

definition StrUnsignedDecimalLiteral :: "string \<Rightarrow> number option" where
  "StrUnsignedDecimalLiteral u =
     (if u = ''Infinity'' then Some PosInf
      else
        let ip = takeWhile (isDigitOf 10) u;
            r1 = dropWhile (isDigitOf 10) u;
            dot = (r1 \<noteq> [] \<and> hd r1 = CHR ''.'');
            fp = (if dot then takeWhile (isDigitOf 10) (tl r1) else []);
            r2 = (if dot then dropWhile (isDigitOf 10) (tl r1) else r1);
            mant = real (digitsValue 10 (ip @ fp)) / 10 ^ length fp
        in if ip = [] \<and> fp = [] then None
           else if r2 = [] then Some (Fin mant)
           else if hd r2 = CHR ''e'' \<or> hd r2 = CHR ''E'' then
             map_option (\<lambda>e. Fin (scale10 mant e)) (SignedInteger (tl r2))
           else None)"

definition StrDecimalLiteral :: "string \<Rightarrow> number option" where
  "StrDecimalLiteral t =
     (case t of
        [] \<Rightarrow> None
      | c # r \<Rightarrow>
          if c = CHR ''+'' then StrUnsignedDecimalLiteral r
          else if c = CHR ''-'' then map_option js_neg (StrUnsignedDecimalLiteral r)
          else StrUnsignedDecimalLiteral t)"

text \<open>\<open>NonDecimalIntegerLiteral\<close>: \<open>0x\<close>, \<open>0o\<close> or \<open>0b\<close> (either case) and digits; no sign.\<close>

definition NonDecimalIntegerLiteral :: "string \<Rightarrow> number option" where
  "NonDecimalIntegerLiteral t =
     (case t of
        z # p # r \<Rightarrow>
          if z \<noteq> CHR ''0'' then None
          else if p = CHR ''x'' \<or> p = CHR ''X'' then map_option (\<lambda>n. Fin (real n)) (wholeDigits 16 r)
          else if p = CHR ''o'' \<or> p = CHR ''O'' then map_option (\<lambda>n. Fin (real n)) (wholeDigits 8 r)
          else if p = CHR ''b'' \<or> p = CHR ''B'' then map_option (\<lambda>n. Fin (real n)) (wholeDigits 2 r)
          else None
      | _ \<Rightarrow> None)"

text \<open>
  \<open>Number(s)\<close> for a string \<open>s\<close>: the empty or blank string is \<open>0\<close>, a numeric literal is
  its value, anything else is \<open>NaN\<close>.
\<close>

definition StringToNumber :: "string \<Rightarrow> number" where
  "StringToNumber s =
     (let t = trim s in
      if t = [] then Fin 0
      else case NonDecimalIntegerLiteral t of
             Some n \<Rightarrow> n
           | None \<Rightarrow> (case StrDecimalLiteral t of Some n \<Rightarrow> n | None \<Rightarrow> NaN))"

text \<open>The \<open>typeof\<close> operator.\<close>

fun typeof :: "jsval \<Rightarrow> string" where
  "typeof JUndefined = ''undefined''"
| "typeof JNull = ''object''"
| "typeof (JBool _) = ''boolean''"
| "typeof (JNum _) = ''number''"
| "typeof (JStr _) = ''string''"
| "typeof (JArr _) = ''object''"
| "typeof (JObj _) = ''object''"

section \<open>Session Normalizer (api/client)\<close>

fun coerceNumber :: "jsval \<Rightarrow> number" where
  "coerceNumber (JNum n) = n"
| "coerceNumber (JStr s) = StringToNumber s"
| "coerceNumber _ = Fin 0"

datatype SignalQuality = good | medium | poor

text \<open>The fields \<open>min\<close> and \<open>max\<close> of the source are \<open>min_f\<close> and \<open>max_f\<close> here.\<close>

record EcgFeatureSet =
  estimatedBpm :: number
  peakCount :: number
  mean :: number
  std :: number
  rms :: number
  min_f :: number
  max_f :: number
  skewness :: number
  kurtosis :: number
  rrMeanMs :: number
  rrStdMs :: number
  qrsWidthMs :: number
  lowFreqPowerRatio :: number
  midFreqPowerRatio :: number
  highFreqPowerRatio :: number
  spectralCentroidHz :: number
  spectralEntropy :: number
  veryLowFreqPowerRatio :: number
  motionArtifactIndex :: number
  baselineDriftRatio :: number
  signalQualityScore :: number
  hrvDailyRmssd :: number
  signalQuality :: SignalQuality

text \<open>
  The source takes a \<open>Partial<EcgFeatureSet>\<close> and defaults an absent field to \<open>0\<close>; its
  one caller passes a record with every field present.
\<close>

definition evaluateSignalQuality :: "EcgFeatureSet \<Rightarrow> SignalQuality" where
  "evaluateSignalQuality features =
     (if js_ge (signalQualityScore features) (Fin 0.75) \<and> js_le (motionArtifactIndex features) (Fin 0.35)
        then good
      else if js_ge (signalQualityScore features) (Fin 0.5) \<and> js_le (motionArtifactIndex features) (Fin 0.6)
        then medium
      else if js_ge (signalQualityScore features) (Fin 0.5) then medium
      else if js_lt (peakCount features) (Fin 10) \<or> js_lt (std features) (Fin 0.05)
              \<or> js_lt (estimatedBpm features) (Fin 40) \<or> js_gt (estimatedBpm features) (Fin 160)
        then poor
      else if js_lt (peakCount features) (Fin 25) \<or> js_lt (std features) (Fin 0.08) then medium
      else good)"

text \<open>
  \<open>payload.Key ?? payload.key\<close> and \<open>coerceNumber(payload.Key ?? payload.key)\<close>, the read
  every numeric field goes through.
\<close>

definition rawField :: "payload \<Rightarrow> string \<Rightarrow> string \<Rightarrow> jsval" where
  "rawField p pascal camel = nullish (getProp p pascal) (getProp p camel)"

definition field :: "payload \<Rightarrow> string \<Rightarrow> string \<Rightarrow> number" where
  "field p pascal camel = coerceNumber (rawField p pascal camel)"

text \<open>\<open>hrv\<close> is \<open>None\<close> when the argument is \<open>undefined\<close> or \<open>null\<close>.\<close>

definition normalizeFeatures :: "payload \<Rightarrow> number option \<Rightarrow> EcgFeatureSet" where
  "normalizeFeatures p hrv =
     (let rrMeanMs' = field p ''RrMeanMs'' ''rrMeanMs'';
          rrStdMs' = field p ''RrStdMs'' ''rrStdMs'';
          qrsWidthMs' = field p ''QrsWidthMs'' ''qrsWidthMs'';
          lowFreqPowerRatio' = field p ''LowFreqPowerRatio'' ''lowFreqPowerRatio'';
          midFreqPowerRatio' = field p ''MidFreqPowerRatio'' ''midFreqPowerRatio'';
          highFreqPowerRatio' = field p ''HighFreqPowerRatio'' ''highFreqPowerRatio'';
          veryLowFreqPowerRatio' = field p ''VeryLowFreqPowerRatio'' ''veryLowFreqPowerRatio'';
          spectralCentroidHz' = field p ''SpectralCentroidHz'' ''spectralCentroidHz'';
          spectralEntropy' = field p ''SpectralEntropy'' ''spectralEntropy'';
          motionArtifactIndex' = field p ''MotionArtifactIndex'' ''motionArtifactIndex'';
          baselineDriftRatio' = field p ''BaselineDriftRatio'' ''baselineDriftRatio'';
          rawSignalQualityScore = field p ''SignalQualityScore'' ''signalQualityScore'';
          signalQualityScore' =
            (if js_gt rawSignalQualityScore (Fin 0) then rawSignalQualityScore
             else Math_max (Fin 0) (js_sub (Fin 1) motionArtifactIndex'));
          normalized = \<lparr>
            estimatedBpm = field p ''EstimatedBpm'' ''estimatedBpm'',
            peakCount = field p ''PeakCount'' ''peakCount'',
            mean = field p ''Mean'' ''mean'',
            std = field p ''Std'' ''std'',
            rms = field p ''Rms'' ''rms'',
            min_f = field p ''Min'' ''min'',
            max_f = field p ''Max'' ''max'',
            skewness = field p ''Skewness'' ''skewness'',
            kurtosis = field p ''Kurtosis'' ''kurtosis'',
            rrMeanMs = rrMeanMs',
            rrStdMs = rrStdMs',
            qrsWidthMs = qrsWidthMs',
            lowFreqPowerRatio = lowFreqPowerRatio',
            midFreqPowerRatio = midFreqPowerRatio',
            highFreqPowerRatio = highFreqPowerRatio',
            spectralCentroidHz = spectralCentroidHz',
            spectralEntropy = spectralEntropy',
            veryLowFreqPowerRatio = veryLowFreqPowerRatio',
            motionArtifactIndex = motionArtifactIndex',
            baselineDriftRatio = baselineDriftRatio',
            signalQualityScore = signalQualityScore',
            hrvDailyRmssd =
              (case hrv of Some h \<Rightarrow> h | None \<Rightarrow> field p ''HrvDailyRmssd'' ''hrvDailyRmssd''),
            signalQuality = good \<rparr>
      in normalized\<lparr>signalQuality := evaluateSignalQuality normalized\<rparr>)"

subsection \<open>Session records\<close>

text \<open>
  The session record and the backend's response have fields of the same names as the
  feature set; the response's fields carry the prefix \<open>api_\<close> and the record's clashing
  ones the prefix \<open>session_\<close>. An optional or nullable field is an option, \<open>None\<close> for
  \<open>undefined\<close> and \<open>null\<close>. A field that the adapter passes through \<open>coerceNumber\<close> or
  \<open>Array.isArray\<close> keeps the type \<open>unknown\<close>.
\<close>

record SessionMetadata =
  activityLabel :: "string option"
  stressLevel :: "string option"
  sensorPlacement :: "string option"
  deviceModel :: "string option"

record ServerSessionMetadata =
  api_activityLabel :: "string option"
  api_stressLevel :: "string option"
  api_sensorPlacement :: "string option"
  api_deviceModel :: "string option"

record CollectSessionApiResponse =
  api_documentId :: string
  api_fitbitUserId :: "string option"
  api_ecgStartTime :: "string option"
  api_hrvDailyRmssd :: "number option"
  api_features :: "payload option"
  api_metadata :: "ServerSessionMetadata option"
  api_waveformPreview :: jsval
  api_signalQualityScore :: jsval
  api_motionArtifactIndex :: jsval
  api_baselineDriftRatio :: jsval
  api_samplingHz :: jsval
  api_scalingFactor :: jsval
  api_tags :: "string option list option"
  api_notes :: "string option"

record CollectSessionResponse =
  documentId :: string
  fitbitUserId :: "string option"
  ecgStartTime :: "string option"
  session_hrvDailyRmssd :: "number option"
  features :: EcgFeatureSet
  metadata :: "SessionMetadata option"
  waveformPreview :: "number list"
  session_signalQualityScore :: number
  session_motionArtifactIndex :: number
  session_baselineDriftRatio :: number
  samplingHz :: number
  scalingFactor :: number
  tags :: "string list"
  session_notes :: "string option"

type_synonym EcgSessionRecord = CollectSessionResponse

definition sanitizeString :: "string option \<Rightarrow> string option" where
  "sanitizeString v =
     (case v of
        None \<Rightarrow> None
      | Some s \<Rightarrow> (let trimmed = trim s in if length trimmed > 0 then Some trimmed else None))"

text \<open>\<open>Boolean(v)\<close> for an optional string: false for \<open>undefined\<close> and for the empty string.\<close>

definition truthyString :: "string option \<Rightarrow> bool" where
  "truthyString v = (case v of None \<Rightarrow> False | Some s \<Rightarrow> s \<noteq> [])"

definition adaptMetadata :: "ServerSessionMetadata option \<Rightarrow> SessionMetadata option" where
  "adaptMetadata m =
     (case m of
        None \<Rightarrow> None
      | Some md \<Rightarrow>
          (let normalized = \<lparr>
                 activityLabel = sanitizeString (api_activityLabel md),
                 stressLevel = sanitizeString (api_stressLevel md),
                 sensorPlacement = sanitizeString (api_sensorPlacement md),
                 deviceModel = sanitizeString (api_deviceModel md) \<rparr>
           in if list_ex truthyString
                   [activityLabel normalized, stressLevel normalized,
                    sensorPlacement normalized, deviceModel normalized]
              then Some normalized else None))"

definition adaptWaveformPreview :: "jsval \<Rightarrow> number list" where
  "adaptWaveformPreview preview = (case preview of JArr vs \<Rightarrow> map coerceNumber vs | _ \<Rightarrow> [])"

definition adaptTags :: "string option list option \<Rightarrow> string list" where
  "adaptTags ts =
     (case ts of
        None \<Rightarrow> []
      | Some xs \<Rightarrow> concat (map (\<lambda>t. case sanitizeString t of
                                       None \<Rightarrow> []
                                     | Some s \<Rightarrow> if length s > 0 then [s] else []) xs))"

definition adaptCollectResponse :: "CollectSessionApiResponse \<Rightarrow> CollectSessionResponse" where
  "adaptCollectResponse data =
     (let features' = normalizeFeatures (case api_features data of None \<Rightarrow> Map.empty | Some p \<Rightarrow> p)
                        (api_hrvDailyRmssd data);
          signalQualityScore' = coerceNumber (api_signalQualityScore data);
          motionArtifactIndex' = coerceNumber (api_motionArtifactIndex data);
          baselineDriftRatio' = coerceNumber (api_baselineDriftRatio data)
      in \<lparr> documentId = api_documentId data,
           fitbitUserId = api_fitbitUserId data,
           ecgStartTime = api_ecgStartTime data,
           session_hrvDailyRmssd = api_hrvDailyRmssd data,
           features = features',
           metadata = adaptMetadata (api_metadata data),
           waveformPreview = adaptWaveformPreview (api_waveformPreview data),
           session_signalQualityScore = js_or signalQualityScore' (signalQualityScore features'),
           session_motionArtifactIndex = js_or motionArtifactIndex' (motionArtifactIndex features'),
           session_baselineDriftRatio = js_or baselineDriftRatio' (baselineDriftRatio features'),
           samplingHz = coerceNumber (api_samplingHz data),
           scalingFactor = coerceNumber (api_scalingFactor data),
           tags = adaptTags (api_tags data),
           session_notes = sanitizeString (api_notes data) \<rparr>)"

section \<open>Participant Aggregator (App)\<close>

record ParticipantModelStatus =
  trainedPairs :: number
  lastTrainedAt :: "string option"
  accuracy :: "number option"
  auc :: "number option"
  f1 :: "number option"

text \<open>The field \<open>id\<close> of the source is \<open>participant_id\<close>; a counter is a natural number.\<close>

record Participant =
  participant_id :: string
  participant_alias :: "string option"
  sessionCount :: nat
  lastSessionAt :: "string option"
  enrollmentProgress :: "number option"
  modelStatus :: "ParticipantModelStatus option"

record GroupEntry =
  entry_sessionCount :: nat
  entry_lastSessionAt :: "string option"

definition progressFromSessions :: "number \<Rightarrow> number" where
  "progressFromSessions n = Math_min (Fin 1) (js_div n (Fin 12))"

text \<open>
  The body of the \<open>forEach\<close>. The \<open>Map\<close> is an association list in insertion order:
  \<open>set\<close> on a key that is there replaces its value in place, on a new key appends.
  \<open>getTime s\<close> stands for \<open>new Date(s).getTime()\<close>.
\<close>

definition groupSession ::
  "(string \<Rightarrow> number) \<Rightarrow> (string \<times> GroupEntry) list \<Rightarrow> EcgSessionRecord \<Rightarrow> (string \<times> GroupEntry) list" where
  "groupSession getTime grouped session =
     (if \<not> truthyString (fitbitUserId session) then grouped
      else
        let uid = the (fitbitUserId session);
            entry0 = (case map_of grouped uid of
                        None \<Rightarrow> \<lparr> entry_sessionCount = 0, entry_lastSessionAt = None \<rparr>
                      | Some e \<Rightarrow> e);
            entry1 = entry0\<lparr>entry_sessionCount := entry_sessionCount entry0 + 1\<rparr>;
            entry2 =
              (if truthyString (ecgStartTime session) then
                 (if \<not> truthyString (entry_lastSessionAt entry1)
                     \<or> js_gt (getTime (the (ecgStartTime session)))
                              (getTime (the (entry_lastSessionAt entry1)))
                  then entry1\<lparr>entry_lastSessionAt := ecgStartTime session\<rparr>
                  else entry1)
               else entry1)
        in AList.update uid entry2 grouped)"

definition buildParticipantsFromSessions ::
  "(string \<Rightarrow> number) \<Rightarrow> EcgSessionRecord list \<Rightarrow> Participant list" where
  "buildParticipantsFromSessions getTime sessions =
     map (\<lambda>(pid, info).
            \<lparr> participant_id = pid,
              participant_alias = None,
              sessionCount = entry_sessionCount info,
              lastSessionAt = entry_lastSessionAt info,
              enrollmentProgress = Some (progressFromSessions (Fin (real (entry_sessionCount info)))),
              modelStatus = None \<rparr>)
         (foldl (groupSession getTime) [] sessions)"

section \<open>Attempt Ledger (App)\<close>

datatype Label = genuine | impostor

record VerifyComparison =
  comparison_id :: string
  sessionLabel :: string
  timestampLabel :: string
  probability :: number

text \<open>
  The fields \<open>id\<close>, \<open>alias\<close> and \<open>notes\<close> of the source are \<open>attempt_id\<close>, \<open>attempt_alias\<close> and
  \<open>attempt_notes\<close>.
\<close>

record VerifyAttempt =
  attempt_id :: string
  participantId :: string
  attempt_alias :: "string option"
  timestamp :: string
  score :: number
  threshold :: number
  passed :: bool
  label :: "Label option"
  attempt_notes :: "string option"
  hrv :: "number option"
  comparisons :: "VerifyComparison list"

datatype TabId = participants_tab | enrollment_tab | verification_tab | analytics_tab

text \<open>The part of the component's state that the two ledger handlers write.\<close>

record AppState =
  activeTab :: TabId
  latestVerify :: "VerifyAttempt option"
  attemptLogs :: "VerifyAttempt list"

definition initialState :: AppState where
  "initialState = \<lparr> activeTab = participants_tab, latestVerify = None, attemptLogs = [] \<rparr>"

definition verifyMutation_onSuccess :: "VerifyAttempt \<Rightarrow> AppState \<Rightarrow> AppState" where
  "verifyMutation_onSuccess attempt st =
     st\<lparr> latestVerify := Some attempt,
         attemptLogs := take 400 (attempt # attemptLogs st),
         activeTab := verification_tab \<rparr>"

definition relabelled :: "string \<Rightarrow> Label \<Rightarrow> string option \<Rightarrow> VerifyAttempt \<Rightarrow> VerifyAttempt" where
  "relabelled attemptId l n attempt =
     (if attempt_id attempt = attemptId then attempt\<lparr>label := Some l, attempt_notes := n\<rparr> else attempt)"

definition handleLabelUpdate :: "string \<Rightarrow> Label \<Rightarrow> string option \<Rightarrow> AppState \<Rightarrow> AppState" where
  "handleLabelUpdate attemptId l n st =
     st\<lparr> attemptLogs := map (relabelled attemptId l n) (attemptLogs st),
         latestVerify := map_option (relabelled attemptId l n) (latestVerify st) \<rparr>"

text \<open>The ledger's history: the handlers that write \<open>attemptLogs\<close>, run from the initial state.\<close>

datatype event = VerifySucceeded VerifyAttempt | LabelUpdated string Label "string option"

fun handle :: "AppState \<Rightarrow> event \<Rightarrow> AppState" where
  "handle st (VerifySucceeded attempt) = verifyMutation_onSuccess attempt st"
| "handle st (LabelUpdated attemptId l n) = handleLabelUpdate attemptId l n st"

definition run :: "event list \<Rightarrow> AppState" where
  "run evs = foldl handle initialState evs"

section \<open>Analytics Engine (AnalyticsTab)\<close>

definition genuineAttempts :: "VerifyAttempt list \<Rightarrow> VerifyAttempt list" where
  "genuineAttempts attempts = filter (\<lambda>attempt. label attempt = Some genuine) attempts"

definition impostorAttempts :: "VerifyAttempt list \<Rightarrow> VerifyAttempt list" where
  "impostorAttempts attempts = filter (\<lambda>attempt. label attempt = Some impostor) attempts"

text \<open>A \<open>length\<close> is a natural number, read as the number \<open>Fin (real n)\<close>.\<close>

definition far :: "VerifyAttempt list \<Rightarrow> number" where
  "far attempts =
     (if length (impostorAttempts attempts) \<noteq> 0
      then js_div (Fin (real (length (filter (\<lambda>attempt. passed attempt) (impostorAttempts attempts)))))
                  (Fin (real (length (impostorAttempts attempts))))
      else Fin 0)"

definition frr :: "VerifyAttempt list \<Rightarrow> number" where
  "frr attempts =
     (if length (genuineAttempts attempts) \<noteq> 0
      then js_div (Fin (real (length (filter (\<lambda>attempt. \<not> passed attempt) (genuineAttempts attempts)))))
                  (Fin (real (length (genuineAttempts attempts))))
      else Fin 0)"

definition eer :: "VerifyAttempt list \<Rightarrow> number" where
  "eer attempts = js_div (js_add (far attempts) (frr attempts)) (Fin 2)"

section \<open>Continuous-Monitor Summarizer (ContinuousMonitor)\<close>

record ContinuousVerifySample =
  windowStartUtc :: string
  windowEndUtc :: string
  sample_score :: number
  passes :: bool

record ContinuousVerifyResponse =
  authenticated :: bool
  rollingMeanScore :: number
  rollingWorstScore :: number
  samples :: "ContinuousVerifySample list"

record Summary =
  count :: nat
  passCount :: nat
  failCount :: int
  passRate :: number
  windowRange :: "string option"

text \<open>
  \<open>fmt s\<close> stands for \<open>format(new Date(s), 'MMM d HH:mm')\<close> of the date library, which
  raises on a string that is no date: \<open>None\<close>. The memo then yields no summary.
\<close>

definition summary ::
  "(string \<Rightarrow> string option) \<Rightarrow> ContinuousVerifyResponse option \<Rightarrow> Summary option" where
  "summary fmt latestResult =
     (let samples' = (case latestResult of None \<Rightarrow> [] | Some r \<Rightarrow> samples r);
          count' = length samples';
          passCount' = length (filter (\<lambda>sample. passes sample) samples');
          failCount' = int count' - int passCount';
          passRate' = (if count' > 0 then js_div (Fin (real passCount')) (Fin (real count')) else Fin 0)
      in if count' > 0 then
           (case fmt (windowStartUtc (samples' ! 0)) of
              None \<Rightarrow> None
            | Some a \<Rightarrow>
                (case fmt (windowEndUtc (samples' ! (length samples' - 1))) of
                   None \<Rightarrow> None
                 | Some b \<Rightarrow>
                     Some \<lparr> count = count', passCount = passCount', failCount = failCount',
                            passRate = passRate', windowRange = Some (a @ '' - '' @ b) \<rparr>))
         else Some \<lparr> count = count', passCount = passCount', failCount = failCount',
                     passRate = passRate', windowRange = None \<rparr>)"

section \<open>Sample inputs\<close>

text \<open>
  A payload whose peak count and deviation alone would be rated \<open>poor\<close>, with a high
  quality score and a low artifact index; one key in each spelling, one value a string.
\<close>

definition lowPeakPayload :: payload where
  "lowPeakPayload =
     [''SignalQualityScore'' \<mapsto> JNum (Fin 0.8), ''motionArtifactIndex'' \<mapsto> JStr ''0.2'',
      ''PeakCount'' \<mapsto> JNum (Fin 3), ''Std'' \<mapsto> JNum (Fin 0.01)]"

text \<open>
  The keys of a feature payload, in PascalCase and in camelCase, and the two payloads
  that carry an assignment of values to the fields (given by the camelCase names) under
  the keys of one spelling only.
\<close>

definition featureKeys :: "(string \<times> string) list" where
  "featureKeys =
     [(''RrMeanMs'', ''rrMeanMs''), (''RrStdMs'', ''rrStdMs''), (''QrsWidthMs'', ''qrsWidthMs''),
      (''LowFreqPowerRatio'', ''lowFreqPowerRatio''), (''MidFreqPowerRatio'', ''midFreqPowerRatio''),
      (''HighFreqPowerRatio'', ''highFreqPowerRatio''),
      (''VeryLowFreqPowerRatio'', ''veryLowFreqPowerRatio''),
      (''SpectralCentroidHz'', ''spectralCentroidHz''), (''SpectralEntropy'', ''spectralEntropy''),
      (''MotionArtifactIndex'', ''motionArtifactIndex''),
      (''BaselineDriftRatio'', ''baselineDriftRatio''),
      (''SignalQualityScore'', ''signalQualityScore''), (''EstimatedBpm'', ''estimatedBpm''),
      (''PeakCount'', ''peakCount''), (''Mean'', ''mean''), (''Std'', ''std''), (''Rms'', ''rms''),
      (''Min'', ''min''), (''Max'', ''max''), (''Skewness'', ''skewness''),
      (''Kurtosis'', ''kurtosis''), (''HrvDailyRmssd'', ''hrvDailyRmssd'')]"

definition pascalPayload :: "(string \<rightharpoonup> jsval) \<Rightarrow> payload" where
  "pascalPayload vals k = (case map_of featureKeys k of None \<Rightarrow> None | Some camel \<Rightarrow> vals camel)"

definition camelPayload :: "(string \<rightharpoonup> jsval) \<Rightarrow> payload" where
  "camelPayload vals k = (if k \<in> set (map snd featureKeys) then vals k else None)"

text \<open>
  The fields that are the coerced read and nothing else (all but \<open>signalQualityScore\<close>
  and \<open>hrvDailyRmssd\<close>), each with its keys.
\<close>

definition coercedFields :: "(string \<times> string \<times> (EcgFeatureSet \<Rightarrow> number)) list" where
  "coercedFields =
     [(''RrMeanMs'', ''rrMeanMs'', rrMeanMs), (''RrStdMs'', ''rrStdMs'', rrStdMs),
      (''QrsWidthMs'', ''qrsWidthMs'', qrsWidthMs),
      (''LowFreqPowerRatio'', ''lowFreqPowerRatio'', lowFreqPowerRatio),
      (''MidFreqPowerRatio'', ''midFreqPowerRatio'', midFreqPowerRatio),
      (''HighFreqPowerRatio'', ''highFreqPowerRatio'', highFreqPowerRatio),
      (''VeryLowFreqPowerRatio'', ''veryLowFreqPowerRatio'', veryLowFreqPowerRatio),
      (''SpectralCentroidHz'', ''spectralCentroidHz'', spectralCentroidHz),
      (''SpectralEntropy'', ''spectralEntropy'', spectralEntropy),
      (''MotionArtifactIndex'', ''motionArtifactIndex'', motionArtifactIndex),
      (''BaselineDriftRatio'', ''baselineDriftRatio'', baselineDriftRatio),
      (''EstimatedBpm'', ''estimatedBpm'', estimatedBpm), (''PeakCount'', ''peakCount'', peakCount),
      (''Mean'', ''mean'', mean), (''Std'', ''std'', std), (''Rms'', ''rms'', rms),
      (''Min'', ''min'', min_f), (''Max'', ''max'', max_f), (''Skewness'', ''skewness'', skewness),
      (''Kurtosis'', ''kurtosis'', kurtosis)]"


text \<open>An assignment with a number, a numeric string, a \<open>null\<close> and a string that is no number.\<close>

definition mixedValues :: "string \<rightharpoonup> jsval" where
  "mixedValues =
     [''peakCount'' \<mapsto> JNum (Fin 30), ''std'' \<mapsto> JStr ''0.09'', ''estimatedBpm'' \<mapsto> JNum (Fin 72),
      ''mean'' \<mapsto> JNull, ''rms'' \<mapsto> JStr ''n/a'', ''motionArtifactIndex'' \<mapsto> JNum (Fin 0.7)]"

text \<open>Payloads with one malformed field: a string that is no number, and a boolean.\<close>

definition notANumberPayload :: payload where
  "notANumberPayload = [''Mean'' \<mapsto> JStr ''n/a'']"

definition booleanPayload :: payload where
  "booleanPayload = [''Mean'' \<mapsto> JBool True, ''std'' \<mapsto> JStr '' 1.5e1 '']"

text \<open>
  A backend response with no top-level quality score, a top-level artifact index that
  coerces to zero and a non-zero top-level drift ratio.
\<close>

definition sampleApiResponse :: CollectSessionApiResponse where
  "sampleApiResponse =
     \<lparr> api_documentId = ''doc-1'',
       api_fitbitUserId = Some ''user-1'',
       api_ecgStartTime = Some ''2026-02-24T12:00:00.000Z'',
       api_hrvDailyRmssd = None,
       api_features = Some [''SignalQualityScore'' \<mapsto> JNum (Fin 0.9),
                            ''MotionArtifactIndex'' \<mapsto> JNum (Fin 0.1),
                            ''BaselineDriftRatio'' \<mapsto> JNum (Fin 0.05)],
       api_metadata = None,
       api_waveformPreview = JNull,
       api_signalQualityScore = JUndefined,
       api_motionArtifactIndex = JStr ''0'',
       api_baselineDriftRatio = JNum (Fin 0.3),
       api_samplingHz = JNum (Fin 250),
       api_scalingFactor = JUndefined,
       api_tags = None,
       api_notes = None \<rparr>"

text \<open>Attempts that differ in identity, label and outcome only.\<close>

definition mkAttempt :: "string \<Rightarrow> Label option \<Rightarrow> bool \<Rightarrow> VerifyAttempt" where
  "mkAttempt i l ok =
     \<lparr> attempt_id = i, participantId = ''user-1'', attempt_alias = None,
       timestamp = ''2026-02-24T12:00:00.000Z'', score = Fin 0.92, threshold = Fin 0.85,
       passed = ok, label = l, attempt_notes = None, hrv = None, comparisons = [] \<rparr>"

text \<open>Two genuine and two impostor attempts, one pass and one fail each, and one unlabeled.\<close>

definition sampleAttempts :: "VerifyAttempt list" where
  "sampleAttempts =
     [mkAttempt ''a1'' (Some genuine) True, mkAttempt ''a2'' (Some genuine) False,
      mkAttempt ''a3'' (Some impostor) True, mkAttempt ''a4'' (Some impostor) False,
      mkAttempt ''a5'' None True]"

text \<open>A state whose ledger is full: 400 attempts, the oldest one last.\<close>

definition fullState :: AppState where
  "fullState =
     \<lparr> activeTab = analytics_tab, latestVerify = None,
       attemptLogs = replicate 399 (mkAttempt ''mid'' None True) @ [mkAttempt ''oldest'' None False] \<rparr>"

definition sampleState :: AppState where
  "sampleState =
     \<lparr> activeTab = verification_tab, latestVerify = Some (mkAttempt ''a2'' None False),
       attemptLogs = [mkAttempt ''a1'' None True, mkAttempt ''a2'' None False,
                      mkAttempt ''a3'' (Some genuine) True] \<rparr>"

text \<open>Sessions of two participants, with one record without identity and one with an empty one.\<close>

definition mkSession :: "string option \<Rightarrow> string option \<Rightarrow> EcgSessionRecord" where
  "mkSession uid start =
     adaptCollectResponse
       \<lparr> api_documentId = ''doc'', api_fitbitUserId = uid, api_ecgStartTime = start,
         api_hrvDailyRmssd = None, api_features = None, api_metadata = None,
         api_waveformPreview = JNull, api_signalQualityScore = JUndefined,
         api_motionArtifactIndex = JUndefined, api_baselineDriftRatio = JUndefined,
         api_samplingHz = JUndefined, api_scalingFactor = JUndefined, api_tags = None,
         api_notes = None \<rparr>"

definition sampleSessions :: "EcgSessionRecord list" where
  "sampleSessions =
     [mkSession (Some ''u2'') (Some ''t1''), mkSession None (Some ''t2''),
      mkSession (Some '''') None, mkSession (Some ''u1'') None,
      mkSession (Some ''u2'') (Some ''t3'')]"

definition sampleGetTime :: "string \<Rightarrow> number" where
  "sampleGetTime s = (if s = ''t1'' then Fin 1 else if s = ''t3'' then Fin 3 else NaN)"

text \<open>Three windows that pass, fail and pass, and a formatter that prints the string itself.\<close>

definition threeSamples :: ContinuousVerifyResponse where
  "threeSamples =
     \<lparr> authenticated = False, rollingMeanScore = Fin 0.8, rollingWorstScore = Fin 0.4,
       samples =
         [\<lparr> windowStartUtc = ''w1s'', windowEndUtc = ''w1e'', sample_score = Fin 0.9, passes = True \<rparr>,
          \<lparr> windowStartUtc = ''w2s'', windowEndUtc = ''w2e'', sample_score = Fin 0.4, passes = False \<rparr>,
          \<lparr> windowStartUtc = ''w3s'', windowEndUtc = ''w3e'', sample_score = Fin 0.95, passes = True \<rparr>] \<rparr>"

definition sampleFmt :: "string \<Rightarrow> string option" where
  "sampleFmt s = Some s"

section \<open>Properties of the Session Normalizer\<close>

lemmas parse_defs =
  StringToNumber_def trim_def isStrWhiteSpaceChar_def NonDecimalIntegerLiteral_def
  StrDecimalLiteral_def StrUnsignedDecimalLiteral_def wholeDigits_def digitsValue_def
  isDigitOf_def digitValue_def SignedInteger_def scale10_def

lemmas read_defs = field_def rawField_def getProp_def nullish_def

lemma nf_signalQualityScore:
  "signalQualityScore (normalizeFeatures p h) =
     (if js_gt (field p ''SignalQualityScore'' ''signalQualityScore'') (Fin 0)
      then field p ''SignalQualityScore'' ''signalQualityScore''
      else Math_max (Fin 0) (js_sub (Fin 1) (field p ''MotionArtifactIndex'' ''motionArtifactIndex'')))"
  by (simp add: normalizeFeatures_def Let_def)

lemma nf_motionArtifactIndex:
  "motionArtifactIndex (normalizeFeatures p h) = field p ''MotionArtifactIndex'' ''motionArtifactIndex''"
  by (simp add: normalizeFeatures_def Let_def)

lemma nf_baselineDriftRatio:
  "baselineDriftRatio (normalizeFeatures p h) = field p ''BaselineDriftRatio'' ''baselineDriftRatio''"
  by (simp add: normalizeFeatures_def Let_def)

lemma nf_peakCount:
  "peakCount (normalizeFeatures p h) = field p ''PeakCount'' ''peakCount''"
  by (simp add: normalizeFeatures_def Let_def)

text \<open>The classifier reads the numeric fields only, so the placeholder label is immaterial.\<close>

lemma evaluateSignalQuality_ignores_label:
  "evaluateSignalQuality (f\<lparr>signalQuality := q\<rparr>) = evaluateSignalQuality f"
  by (simp add: evaluateSignalQuality_def)

lemma signalQuality_update: "signalQuality (f\<lparr>signalQuality := q\<rparr>) = q"
  by simp

lemma nf_signalQuality:
  "signalQuality (normalizeFeatures p h) = evaluateSignalQuality (normalizeFeatures p h)"
  unfolding normalizeFeatures_def Let_def
  by (simp only: signalQuality_update evaluateSignalQuality_ignores_label)

lemma evaluateSignalQuality_first_branch:
  "js_ge (signalQualityScore f) (Fin 0.75) \<Longrightarrow> js_le (motionArtifactIndex f) (Fin 0.35)
   \<Longrightarrow> evaluateSignalQuality f = good"
  by (simp add: evaluateSignalQuality_def)

text \<open>
  C2. Whatever the other fields are, a normalized feature set whose quality score is at
  least 0.75 and whose motion artifact index is at most 0.35 is labelled \<open>good\<close>: the
  first branch of the classifier decides before any later one is looked at.
\<close>

theorem normalize_good_precedence:
  assumes "js_ge (signalQualityScore (normalizeFeatures p h)) (Fin 0.75)"
      and "js_le (motionArtifactIndex (normalizeFeatures p h)) (Fin 0.35)"
  shows "signalQuality (normalizeFeatures p h) = good"
  using assms by (simp only: nf_signalQuality evaluateSignalQuality_first_branch)

lemma lowPeak_score: "signalQualityScore (normalizeFeatures lowPeakPayload None) = Fin 0.8"
  by (simp add: nf_signalQualityScore read_defs lowPeakPayload_def js_gt_def)

lemma lowPeak_motion: "motionArtifactIndex (normalizeFeatures lowPeakPayload None) = Fin 0.2"
  by (simp add: nf_motionArtifactIndex read_defs lowPeakPayload_def parse_defs)

lemma lowPeak_peakCount: "peakCount (normalizeFeatures lowPeakPayload None) = Fin 3"
  by (simp add: nf_peakCount read_defs lowPeakPayload_def)

theorem normalize_good_precedence_witness:
  "js_ge (signalQualityScore (normalizeFeatures lowPeakPayload None)) (Fin 0.75)
   \<and> js_le (motionArtifactIndex (normalizeFeatures lowPeakPayload None)) (Fin 0.35)
   \<and> js_lt (peakCount (normalizeFeatures lowPeakPayload None)) (Fin 10)
   \<and> signalQuality (normalizeFeatures lowPeakPayload None) = good"
proof -
  have s: "js_ge (signalQualityScore (normalizeFeatures lowPeakPayload None)) (Fin 0.75)"
    by (simp add: lowPeak_score js_ge_def js_le_def)
  have m: "js_le (motionArtifactIndex (normalizeFeatures lowPeakPayload None)) (Fin 0.35)"
    by (simp add: lowPeak_motion js_le_def)
  have pk: "js_lt (peakCount (normalizeFeatures lowPeakPayload None)) (Fin 10)"
    by (simp add: lowPeak_peakCount)
  from s m pk normalize_good_precedence [OF s m] show ?thesis by (intro conjI)
qed

lemma coerceNumber_other:
  "typeof v \<noteq> ''number'' \<Longrightarrow> typeof v \<noteq> ''string'' \<Longrightarrow> coerceNumber v = Fin 0"
  by (cases v) simp_all

lemma field_absent:
  "rawField p a b = JUndefined \<or> rawField p a b = JNull \<or> rawField p a b = JNum (Fin 0)
   \<Longrightarrow> field p a b = Fin 0"
  by (auto simp: field_def)



lemma coerceNumber_nullish_swap:
  "coerceNumber (nullish x JUndefined) = coerceNumber (nullish JUndefined x)"
  by (cases x) (simp_all add: nullish_def)

text \<open>Each key pair reads the same value from the two payloads, under one key only.\<close>

lemma featureKeys_reads:
  "list_all (\<lambda>(a, b). getProp (pascalPayload vals) a = getProp (camelPayload vals) b
                      \<and> getProp (pascalPayload vals) b = JUndefined
                      \<and> getProp (camelPayload vals) a = JUndefined) featureKeys"
  by (simp add: featureKeys_def getProp_def pascalPayload_def camelPayload_def)

lemma field_pascal_camel:
  assumes "(a, b) \<in> set featureKeys"
  shows "field (pascalPayload vals) a b = field (camelPayload vals) a b"
proof -
  from featureKeys_reads [of vals] assms
  have "getProp (pascalPayload vals) a = getProp (camelPayload vals) b
        \<and> getProp (pascalPayload vals) b = JUndefined
        \<and> getProp (camelPayload vals) a = JUndefined"
    unfolding list_all_iff by blast
  then show ?thesis
    by (simp add: field_def rawField_def coerceNumber_nullish_swap)
qed

lemma featureKeys_fields:
  "list_all (\<lambda>(a, b). field (pascalPayload vals) a b = field (camelPayload vals) a b) featureKeys"
  unfolding list_all_iff using field_pascal_camel by blast

lemmas featureKeys_eqs = featureKeys_fields [unfolded featureKeys_def, simplified]

text \<open>
  C4. For every assignment of values to the feature fields, the payload that carries
  them under the PascalCase keys and the payload that carries them under the camelCase
  keys normalize to the same feature set, derived score and label included.
\<close>

theorem normalize_key_case_irrelevant:
  "normalizeFeatures (pascalPayload vals) h = normalizeFeatures (camelPayload vals) h"
  unfolding normalizeFeatures_def
  by (simp only: featureKeys_eqs)

lemma nf_std: "std (normalizeFeatures p h) = field p ''Std'' ''std''"
  by (simp add: normalizeFeatures_def Let_def)

lemma nf_rms: "rms (normalizeFeatures p h) = field p ''Rms'' ''rms''"
  by (simp add: normalizeFeatures_def Let_def)

lemma nf_estimatedBpm:
  "estimatedBpm (normalizeFeatures p h) = field p ''EstimatedBpm'' ''estimatedBpm''"
  by (simp add: normalizeFeatures_def Let_def)

lemma mixed_camel_reads:
  "field (camelPayload mixedValues) ''PeakCount'' ''peakCount'' = Fin 30"
  "field (camelPayload mixedValues) ''Std'' ''std'' = Fin 0.09"
  "field (camelPayload mixedValues) ''EstimatedBpm'' ''estimatedBpm'' = Fin 72"
  "field (camelPayload mixedValues) ''Rms'' ''rms'' = NaN"
  "field (camelPayload mixedValues) ''MotionArtifactIndex'' ''motionArtifactIndex'' = Fin 0.7"
  "field (camelPayload mixedValues) ''SignalQualityScore'' ''signalQualityScore'' = Fin 0"
  by (simp_all add: read_defs camelPayload_def featureKeys_def mixedValues_def parse_defs)

theorem normalize_key_case_irrelevant_witness:
  "std (normalizeFeatures (pascalPayload mixedValues) None) = Fin 0.09
   \<and> rms (normalizeFeatures (pascalPayload mixedValues) None) = NaN
   \<and> signalQualityScore (normalizeFeatures (pascalPayload mixedValues) None) = Fin 0.3
   \<and> signalQuality (normalizeFeatures (pascalPayload mixedValues) None) = good"
proof -
  have s: "signalQualityScore (normalizeFeatures (camelPayload mixedValues) None) = Fin 0.3"
    by (simp add: nf_signalQualityScore mixed_camel_reads js_gt_def Math_max_def)
  have "evaluateSignalQuality (normalizeFeatures (camelPayload mixedValues) None) = good"
    by (simp add: evaluateSignalQuality_def s nf_motionArtifactIndex nf_peakCount nf_std
        nf_estimatedBpm mixed_camel_reads js_ge_def js_le_def js_gt_def)
  then have q: "signalQuality (normalizeFeatures (camelPayload mixedValues) None) = good"
    by (simp only: nf_signalQuality)
  show ?thesis
    unfolding normalize_key_case_irrelevant [of mixedValues None]
    by (simp add: s q nf_std nf_rms mixed_camel_reads)
qed

lemma coercedFields_read:
  "list_all (\<lambda>(a, b, g). g (normalizeFeatures p h) = field p a b) coercedFields"
  by (simp add: coercedFields_def normalizeFeatures_def Let_def)

text \<open>
  C8, as stated, fails: a string that is no numeric literal is converted by \<open>Number\<close>
  and arrives in the normalized output as \<open>NaN\<close>, not as 0.
\<close>

theorem malformed_string_counterexample:
  "typeof (getProp notANumberPayload ''Mean'') = ''string''
   \<and> coerceNumber (getProp notANumberPayload ''Mean'') \<noteq> Fin 0
   \<and> mean (normalizeFeatures notANumberPayload None) = NaN"
  by (simp add: normalizeFeatures_def Let_def read_defs notANumberPayload_def parse_defs)

text \<open>
  C8, amended. A value that is neither a number nor a string (\<open>undefined\<close>, \<open>null\<close>, a
  boolean, an array, an object) is coerced to 0, and so is the field of the normalized
  output that reads it; a number is kept and a string is converted by \<open>Number\<close>. This
  holds for each of the fields that are the coerced read and nothing else.
\<close>

theorem coercion_of_non_numbers:
  "(typeof v \<noteq> ''number'' \<and> typeof v \<noteq> ''string'' \<longrightarrow> coerceNumber v = Fin 0)
   \<and> (\<forall>(a, b, g) \<in> set coercedFields.
         (typeof (rawField p a b) \<noteq> ''number'' \<and> typeof (rawField p a b) \<noteq> ''string''
            \<longrightarrow> g (normalizeFeatures p h) = Fin 0)
         \<and> (\<forall>n. rawField p a b = JNum n \<longrightarrow> g (normalizeFeatures p h) = n)
         \<and> (\<forall>s. rawField p a b = JStr s \<longrightarrow> g (normalizeFeatures p h) = StringToNumber s))"
proof (intro conjI impI ballI)
  assume "typeof v \<noteq> ''number'' \<and> typeof v \<noteq> ''string''"
  then show "coerceNumber v = Fin 0" by (simp add: coerceNumber_other)
next
  fix x assume x: "x \<in> set coercedFields"
  obtain a b g where abg: "x = (a, b, g)" by (cases x)
  from coercedFields_read [of p h] x abg
  have g: "g (normalizeFeatures p h) = coerceNumber (rawField p a b)"
    unfolding list_all_iff field_def by blast
  show "case x of (a, b, g) \<Rightarrow>
         (typeof (rawField p a b) \<noteq> ''number'' \<and> typeof (rawField p a b) \<noteq> ''string''
            \<longrightarrow> g (normalizeFeatures p h) = Fin 0)
         \<and> (\<forall>n. rawField p a b = JNum n \<longrightarrow> g (normalizeFeatures p h) = n)
         \<and> (\<forall>s. rawField p a b = JStr s \<longrightarrow> g (normalizeFeatures p h) = StringToNumber s)"
    by (simp add: abg g coerceNumber_other)
qed

theorem coercion_of_non_numbers_witness:
  "typeof (rawField booleanPayload ''Mean'' ''mean'') = ''boolean''
   \<and> mean (normalizeFeatures booleanPayload None) = Fin 0
   \<and> rawField booleanPayload ''Std'' ''std'' = JStr '' 1.5e1 ''
   \<and> std (normalizeFeatures booleanPayload None) = Fin 15"
proof -
  have m: "(''Mean'', ''mean'', mean) \<in> set coercedFields"
    and s: "(''Std'', ''std'', std) \<in> set coercedFields"
    by (simp_all add: coercedFields_def)
  have rm: "rawField booleanPayload ''Mean'' ''mean'' = JBool True"
    and rs: "rawField booleanPayload ''Std'' ''std'' = JStr '' 1.5e1 ''"
    by (simp_all add: rawField_def getProp_def nullish_def booleanPayload_def)
  have n: "StringToNumber '' 1.5e1 '' = Fin 15"
    by (simp add: parse_defs)
  from coercion_of_non_numbers [of "JBool True" booleanPayload None, THEN conjunct2, rule_format, OF m]
  have "mean (normalizeFeatures booleanPayload None) = Fin 0"
    by (simp add: rm)
  moreover
  from coercion_of_non_numbers [of "JBool True" booleanPayload None, THEN conjunct2, rule_format, OF s]
  have "std (normalizeFeatures booleanPayload None) = Fin 15"
    by (simp add: rs n)
  ultimately show ?thesis by (simp add: rm rs)
qed

section \<open>Properties of the collect-session adapter\<close>

lemma js_or_zero: "a = Fin 0 \<Longrightarrow> js_or a b = b"
  by (simp add: js_or_def truthy_def)

lemma js_or_used: "js_or a b \<noteq> b \<Longrightarrow> js_or a b = a \<and> a \<noteq> Fin 0"
  by (auto simp: js_or_def truthy_def split: if_splits)

lemma js_or_nonzero: "a \<noteq> Fin 0 \<Longrightarrow> a \<noteq> NaN \<Longrightarrow> js_or a b = a"
  by (simp add: js_or_def truthy_def)

lemma adapt_features:
  "features (adaptCollectResponse d)
     = normalizeFeatures (case api_features d of None \<Rightarrow> Map.empty | Some p \<Rightarrow> p) (api_hrvDailyRmssd d)"
  by (simp add: adaptCollectResponse_def Let_def)

lemma adapt_session_signalQualityScore:
  "session_signalQualityScore (adaptCollectResponse d)
     = js_or (coerceNumber (api_signalQualityScore d)) (signalQualityScore (features (adaptCollectResponse d)))"
  by (simp add: adaptCollectResponse_def Let_def)

lemma adapt_session_motionArtifactIndex:
  "session_motionArtifactIndex (adaptCollectResponse d)
     = js_or (coerceNumber (api_motionArtifactIndex d)) (motionArtifactIndex (features (adaptCollectResponse d)))"
  by (simp add: adaptCollectResponse_def Let_def)

lemma adapt_session_baselineDriftRatio:
  "session_baselineDriftRatio (adaptCollectResponse d)
     = js_or (coerceNumber (api_baselineDriftRatio d)) (baselineDriftRatio (features (adaptCollectResponse d)))"
  by (simp add: adaptCollectResponse_def Let_def)

lemma or_fallback:
  "s = js_or (coerceNumber v) f \<Longrightarrow>
     (v = JUndefined \<or> coerceNumber v = Fin 0 \<longrightarrow> s = f)
     \<and> (s \<noteq> f \<longrightarrow> s = coerceNumber v \<and> coerceNumber v \<noteq> Fin 0)
     \<and> (coerceNumber v \<noteq> Fin 0 \<and> coerceNumber v \<noteq> NaN \<longrightarrow> s = coerceNumber v)
     \<and> (coerceNumber v = NaN \<longrightarrow> s = f)"
  by (auto simp: js_or_def truthy_def)

text \<open>
  C10. In the adapted session record each of the three top-level quality fields is the
  normalized feature set's value when the backend's top-level value is absent or coerces
  to 0, and it is the backend's top-level value whenever that value coerces to a number
  other than 0 (and other than \<open>NaN\<close>, which falls back as 0 does). So the field
  differs from the feature set's value only by being the backend's top-level value, and
  then that value is not 0.
\<close>

theorem collect_top_level_fallback:
  "(api_signalQualityScore d = JUndefined \<or> coerceNumber (api_signalQualityScore d) = Fin 0
      \<longrightarrow> session_signalQualityScore (adaptCollectResponse d)
            = signalQualityScore (features (adaptCollectResponse d)))
   \<and> (session_signalQualityScore (adaptCollectResponse d)
         \<noteq> signalQualityScore (features (adaptCollectResponse d))
      \<longrightarrow> session_signalQualityScore (adaptCollectResponse d) = coerceNumber (api_signalQualityScore d)
          \<and> coerceNumber (api_signalQualityScore d) \<noteq> Fin 0)
   \<and> (coerceNumber (api_signalQualityScore d) \<noteq> Fin 0 \<and> coerceNumber (api_signalQualityScore d) \<noteq> NaN
      \<longrightarrow> session_signalQualityScore (adaptCollectResponse d) = coerceNumber (api_signalQualityScore d))
   \<and> (coerceNumber (api_signalQualityScore d) = NaN
      \<longrightarrow> session_signalQualityScore (adaptCollectResponse d)
            = signalQualityScore (features (adaptCollectResponse d)))
   \<and> (api_motionArtifactIndex d = JUndefined \<or> coerceNumber (api_motionArtifactIndex d) = Fin 0
      \<longrightarrow> session_motionArtifactIndex (adaptCollectResponse d)
            = motionArtifactIndex (features (adaptCollectResponse d)))
   \<and> (session_motionArtifactIndex (adaptCollectResponse d)
         \<noteq> motionArtifactIndex (features (adaptCollectResponse d))
      \<longrightarrow> session_motionArtifactIndex (adaptCollectResponse d) = coerceNumber (api_motionArtifactIndex d)
          \<and> coerceNumber (api_motionArtifactIndex d) \<noteq> Fin 0)
   \<and> (coerceNumber (api_motionArtifactIndex d) \<noteq> Fin 0 \<and> coerceNumber (api_motionArtifactIndex d) \<noteq> NaN
      \<longrightarrow> session_motionArtifactIndex (adaptCollectResponse d) = coerceNumber (api_motionArtifactIndex d))
   \<and> (coerceNumber (api_motionArtifactIndex d) = NaN
      \<longrightarrow> session_motionArtifactIndex (adaptCollectResponse d)
            = motionArtifactIndex (features (adaptCollectResponse d)))
   \<and> (api_baselineDriftRatio d = JUndefined \<or> coerceNumber (api_baselineDriftRatio d) = Fin 0
      \<longrightarrow> session_baselineDriftRatio (adaptCollectResponse d)
            = baselineDriftRatio (features (adaptCollectResponse d)))
   \<and> (session_baselineDriftRatio (adaptCollectResponse d)
         \<noteq> baselineDriftRatio (features (adaptCollectResponse d))
      \<longrightarrow> session_baselineDriftRatio (adaptCollectResponse d) = coerceNumber (api_baselineDriftRatio d)
          \<and> coerceNumber (api_baselineDriftRatio d) \<noteq> Fin 0)
   \<and> (coerceNumber (api_baselineDriftRatio d) \<noteq> Fin 0 \<and> coerceNumber (api_baselineDriftRatio d) \<noteq> NaN
      \<longrightarrow> session_baselineDriftRatio (adaptCollectResponse d) = coerceNumber (api_baselineDriftRatio d))
   \<and> (coerceNumber (api_baselineDriftRatio d) = NaN
      \<longrightarrow> session_baselineDriftRatio (adaptCollectResponse d)
            = baselineDriftRatio (features (adaptCollectResponse d)))
   \<and> features (adaptCollectResponse d)
       = normalizeFeatures (case api_features d of None \<Rightarrow> Map.empty | Some p \<Rightarrow> p) (api_hrvDailyRmssd d)"
proof -
  note q = or_fallback [OF adapt_session_signalQualityScore [of d]]
  note m = or_fallback [OF adapt_session_motionArtifactIndex [of d]]
  note b = or_fallback [OF adapt_session_baselineDriftRatio [of d]]
  show ?thesis
  proof (intro conjI)
    show "features (adaptCollectResponse d)
       = normalizeFeatures (case api_features d of None \<Rightarrow> Map.empty | Some p \<Rightarrow> p) (api_hrvDailyRmssd d)"
      by (rule adapt_features)
  qed (use q m b in blast)+
qed

lemma sample_features:
  "signalQualityScore (features (adaptCollectResponse sampleApiResponse)) = Fin 0.9"
  "motionArtifactIndex (features (adaptCollectResponse sampleApiResponse)) = Fin 0.1"
  "baselineDriftRatio (features (adaptCollectResponse sampleApiResponse)) = Fin 0.05"
  by (simp_all add: adapt_features sampleApiResponse_def nf_signalQualityScore
      nf_motionArtifactIndex nf_baselineDriftRatio read_defs js_gt_def)

theorem collect_top_level_fallback_witness:
  "api_signalQualityScore sampleApiResponse = JUndefined
   \<and> session_signalQualityScore (adaptCollectResponse sampleApiResponse) = Fin 0.9
   \<and> coerceNumber (api_motionArtifactIndex sampleApiResponse) = Fin 0
   \<and> session_motionArtifactIndex (adaptCollectResponse sampleApiResponse) = Fin 0.1
   \<and> coerceNumber (api_baselineDriftRatio sampleApiResponse) = Fin 0.3
   \<and> baselineDriftRatio (features (adaptCollectResponse sampleApiResponse)) = Fin 0.05
   \<and> session_baselineDriftRatio (adaptCollectResponse sampleApiResponse) = Fin 0.3"
proof -
  have a: "api_signalQualityScore sampleApiResponse = JUndefined"
    and b: "coerceNumber (api_motionArtifactIndex sampleApiResponse) = Fin 0"
    and c: "coerceNumber (api_baselineDriftRatio sampleApiResponse) = Fin 0.3"
    by (simp_all add: sampleApiResponse_def parse_defs)
  note t = collect_top_level_fallback [of sampleApiResponse]
  from t a have 1: "session_signalQualityScore (adaptCollectResponse sampleApiResponse) = Fin 0.9"
    by (simp add: sample_features)
  from t b have 2: "session_motionArtifactIndex (adaptCollectResponse sampleApiResponse) = Fin 0.1"
    by (simp add: sample_features)
  have "coerceNumber (api_baselineDriftRatio sampleApiResponse) \<noteq> Fin 0
        \<and> coerceNumber (api_baselineDriftRatio sampleApiResponse) \<noteq> NaN"
    by (simp add: c)
  with t have "session_baselineDriftRatio (adaptCollectResponse sampleApiResponse)
        = coerceNumber (api_baselineDriftRatio sampleApiResponse)"
    by blast
  then have 3: "session_baselineDriftRatio (adaptCollectResponse sampleApiResponse) = Fin 0.3"
    by (simp only: c)
  from a b c 1 2 3 show ?thesis by (simp add: sample_features)
qed

section \<open>Properties of the Attempt Ledger\<close>

lemma onSuccess_logs:
  "attemptLogs (verifyMutation_onSuccess a st) = take 400 (a # attemptLogs st)"
  by (simp add: verifyMutation_onSuccess_def)

lemma relabel_logs:
  "attemptLogs (handleLabelUpdate i l n st) = map (relabelled i l n) (attemptLogs st)"
  by (simp add: handleLabelUpdate_def)

lemma handle_length: "length (attemptLogs st) \<le> 400 \<Longrightarrow> length (attemptLogs (handle st ev)) \<le> 400"
  by (cases ev) (simp_all add: onSuccess_logs relabel_logs)

lemma run_snoc: "run (evs @ [ev]) = handle (run evs) ev"
  by (simp add: run_def)

lemma run_length: "length (attemptLogs (run evs)) \<le> 400"
proof (induction evs rule: rev_induct)
  case Nil
  show ?case by (simp add: run_def initialState_def)
next
  case (snoc ev evs)
  then show ?case by (simp only: run_snoc handle_length)
qed

lemma take_cons_take: "take 400 (a # take 400 xs) = take 400 (a # xs)"
  by (simp add: take_Cons')

lemma run_verifications: "attemptLogs (run (map VerifySucceeded as)) = take 400 (rev as)"
proof (induction as rule: rev_induct)
  case Nil
  show ?case by (simp add: run_def initialState_def)
next
  case (snoc a as)
  have "attemptLogs (run (map VerifySucceeded (as @ [a])))
        = take 400 (a # attemptLogs (run (map VerifySucceeded as)))"
    by (simp add: run_snoc onSuccess_logs)
  also have "\<dots> = take 400 (a # rev as)"
    by (simp only: snoc.IH take_cons_take)
  finally show ?case by simp
qed

text \<open>
  C5. The ledger never holds more than 400 attempts, whatever verifications and
  relabellings have run. Recording an attempt puts it at the head and keeps the first
  400 entries; on a ledger of 400 this leaves 400 entries, the new attempt first and all
  former entries but the last (the oldest) after it. After any number of recordings
  from the empty ledger the ledger is the last 400 attempts, newest first.
\<close>

theorem ledger_capped:
  "length (attemptLogs (run evs)) \<le> 400
   \<and> attemptLogs (verifyMutation_onSuccess a st) = take 400 (a # attemptLogs st)
   \<and> length (attemptLogs (verifyMutation_onSuccess a st)) \<le> 400
   \<and> hd (attemptLogs (verifyMutation_onSuccess a st)) = a
   \<and> (length (attemptLogs st) = 400 \<longrightarrow>
        length (attemptLogs (verifyMutation_onSuccess a st)) = 400
        \<and> attemptLogs (verifyMutation_onSuccess a st) = a # butlast (attemptLogs st))
   \<and> attemptLogs (run (map VerifySucceeded as)) = take 400 (rev as)"
proof (intro conjI impI)
  show "length (attemptLogs (run evs)) \<le> 400" by (rule run_length)
  show "attemptLogs (verifyMutation_onSuccess a st) = take 400 (a # attemptLogs st)"
    by (rule onSuccess_logs)
  show "length (attemptLogs (verifyMutation_onSuccess a st)) \<le> 400"
    by (simp add: onSuccess_logs)
  show "hd (attemptLogs (verifyMutation_onSuccess a st)) = a"
    by (simp add: onSuccess_logs take_Cons')
  show "attemptLogs (run (map VerifySucceeded as)) = take 400 (rev as)"
    by (rule run_verifications)
next
  assume full: "length (attemptLogs st) = 400"
  then show "length (attemptLogs (verifyMutation_onSuccess a st)) = 400"
    by (simp add: onSuccess_logs)
  from full show "attemptLogs (verifyMutation_onSuccess a st) = a # butlast (attemptLogs st)"
    by (simp add: onSuccess_logs take_Cons' butlast_conv_take)
qed

theorem ledger_capped_witness:
  "length (attemptLogs fullState) = 400
   \<and> last (attemptLogs fullState) = mkAttempt ''oldest'' None False
   \<and> length (attemptLogs (verifyMutation_onSuccess (mkAttempt ''new'' None True) fullState)) = 400
   \<and> attemptLogs (verifyMutation_onSuccess (mkAttempt ''new'' None True) fullState)
       = mkAttempt ''new'' None True # replicate 399 (mkAttempt ''mid'' None True)"
proof -
  have full: "length (attemptLogs fullState) = 400"
    by (simp add: fullState_def)
  have b: "butlast (attemptLogs fullState) = replicate 399 (mkAttempt ''mid'' None True)"
    by (simp add: fullState_def)
  have l: "last (attemptLogs fullState) = mkAttempt ''oldest'' None False"
    by (simp add: fullState_def)
  note t = ledger_capped [of "[]" "mkAttempt ''new'' None True" fullState "[]"]
  from t full
  have "length (attemptLogs (verifyMutation_onSuccess (mkAttempt ''new'' None True) fullState)) = 400
        \<and> attemptLogs (verifyMutation_onSuccess (mkAttempt ''new'' None True) fullState)
            = mkAttempt ''new'' None True # butlast (attemptLogs fullState)"
    by blast
  with full l show ?thesis by (simp only: b) simp
qed

lemma relabelled_other: "attempt_id x \<noteq> i \<Longrightarrow> relabelled i l n x = x"
  by (simp add: relabelled_def)

lemma relabelled_same:
  "attempt_id x = i \<Longrightarrow> relabelled i l n x = x\<lparr>label := Some l, attempt_notes := n\<rparr>"
  by (simp add: relabelled_def)

lemma relabelled_id: "attempt_id (relabelled i l n x) = attempt_id x"
  by (simp add: relabelled_def)

text \<open>
  C6. Relabelling keeps the ledger's length and the order of its identities. The entry
  at each position is the former entry with \<open>label\<close> and \<open>notes\<close> replaced (and no
  other field changed) when it has the given identity, and the former entry itself
  otherwise. When no entry has the identity the ledger is unchanged. The handler
  returns a state for every input.
\<close>

theorem relabel_frame:
  "length (attemptLogs (handleLabelUpdate i l n st)) = length (attemptLogs st)
   \<and> map attempt_id (attemptLogs (handleLabelUpdate i l n st)) = map attempt_id (attemptLogs st)
   \<and> (\<forall>k < length (attemptLogs st).
         (attempt_id (attemptLogs st ! k) = i \<longrightarrow>
            attemptLogs (handleLabelUpdate i l n st) ! k
              = (attemptLogs st ! k)\<lparr>label := Some l, attempt_notes := n\<rparr>)
         \<and> (attempt_id (attemptLogs st ! k) \<noteq> i \<longrightarrow>
            attemptLogs (handleLabelUpdate i l n st) ! k = attemptLogs st ! k))
   \<and> (i \<notin> attempt_id ` set (attemptLogs st) \<longrightarrow>
         attemptLogs (handleLabelUpdate i l n st) = attemptLogs st)
   \<and> activeTab (handleLabelUpdate i l n st) = activeTab st"
proof (intro conjI allI impI)
  show "length (attemptLogs (handleLabelUpdate i l n st)) = length (attemptLogs st)"
    by (simp add: relabel_logs)
  show "map attempt_id (attemptLogs (handleLabelUpdate i l n st)) = map attempt_id (attemptLogs st)"
    by (simp add: relabel_logs relabelled_id)
  show "activeTab (handleLabelUpdate i l n st) = activeTab st"
    by (simp add: handleLabelUpdate_def)
next
  fix k assume "k < length (attemptLogs st)" and "attempt_id (attemptLogs st ! k) = i"
  then show "attemptLogs (handleLabelUpdate i l n st) ! k
              = (attemptLogs st ! k)\<lparr>label := Some l, attempt_notes := n\<rparr>"
    by (simp add: relabel_logs relabelled_same)
next
  fix k assume "k < length (attemptLogs st)" and "attempt_id (attemptLogs st ! k) \<noteq> i"
  then show "attemptLogs (handleLabelUpdate i l n st) ! k = attemptLogs st ! k"
    by (simp add: relabel_logs relabelled_other)
next
  assume "i \<notin> attempt_id ` set (attemptLogs st)"
  then have "\<forall>x \<in> set (attemptLogs st). relabelled i l n x = x"
    by (auto simp: relabelled_def)
  then show "attemptLogs (handleLabelUpdate i l n st) = attemptLogs st"
    by (simp add: relabel_logs map_idI)
qed

theorem relabel_frame_witness:
  "attemptLogs (handleLabelUpdate ''a2'' impostor (Some ''spoof'') sampleState)
     = [mkAttempt ''a1'' None True,
        (mkAttempt ''a2'' None False)\<lparr>label := Some impostor, attempt_notes := Some ''spoof''\<rparr>,
        mkAttempt ''a3'' (Some genuine) True]
   \<and> attemptLogs (handleLabelUpdate ''zz'' impostor None sampleState) = attemptLogs sampleState"
proof -
  have len: "length (attemptLogs sampleState) = 3"
    and ids: "map attempt_id (attemptLogs sampleState) = [''a1'', ''a2'', ''a3'']"
    by (simp_all add: sampleState_def mkAttempt_def)
  note t = relabel_frame [of "''a2''" impostor "Some ''spoof''" sampleState]
  have l3: "length (attemptLogs (handleLabelUpdate ''a2'' impostor (Some ''spoof'') sampleState)) = 3"
    using t len by simp
  have k0: "attemptLogs (handleLabelUpdate ''a2'' impostor (Some ''spoof'') sampleState) ! 0
            = mkAttempt ''a1'' None True"
    using t [THEN conjunct2, THEN conjunct2, THEN conjunct1, rule_format, of 0]
    by (simp add: sampleState_def mkAttempt_def)
  have k1: "attemptLogs (handleLabelUpdate ''a2'' impostor (Some ''spoof'') sampleState) ! 1
            = (mkAttempt ''a2'' None False)\<lparr>label := Some impostor, attempt_notes := Some ''spoof''\<rparr>"
    using t [THEN conjunct2, THEN conjunct2, THEN conjunct1, rule_format, of 1]
    by (simp add: sampleState_def mkAttempt_def)
  have k2: "attemptLogs (handleLabelUpdate ''a2'' impostor (Some ''spoof'') sampleState) ! 2
            = mkAttempt ''a3'' (Some genuine) True"
    using t [THEN conjunct2, THEN conjunct2, THEN conjunct1, rule_format, of 2]
    by (simp add: sampleState_def mkAttempt_def)
  have a: "attemptLogs (handleLabelUpdate ''a2'' impostor (Some ''spoof'') sampleState)
     = [mkAttempt ''a1'' None True,
        (mkAttempt ''a2'' None False)\<lparr>label := Some impostor, attempt_notes := Some ''spoof''\<rparr>,
        mkAttempt ''a3'' (Some genuine) True]"
    using l3 k0 k1 k2 by (auto simp: list_eq_iff_nth_eq less_Suc_eq numeral_3_eq_3 numeral_2_eq_2)
  have "''zz'' \<notin> attempt_id ` set (attemptLogs sampleState)"
    by (simp add: sampleState_def mkAttempt_def)
  with relabel_frame [of "''zz''" impostor None sampleState]
  have "attemptLogs (handleLabelUpdate ''zz'' impostor None sampleState) = attemptLogs sampleState"
    by blast
  with a show ?thesis by simp
qed

section \<open>Properties of the Analytics Engine\<close>

lemma far_count:
  "far attempts =
     Fin (if length [a \<leftarrow> attempts. label a = Some impostor] = 0 then 0
          else real (length [a \<leftarrow> attempts. label a = Some impostor \<and> passed a])
               / real (length [a \<leftarrow> attempts. label a = Some impostor]))"
  by (simp add: far_def impostorAttempts_def)

lemma frr_count:
  "frr attempts =
     Fin (if length [a \<leftarrow> attempts. label a = Some genuine] = 0 then 0
          else real (length [a \<leftarrow> attempts. label a = Some genuine \<and> \<not> passed a])
               / real (length [a \<leftarrow> attempts. label a = Some genuine]))"
  by (simp add: frr_def genuineAttempts_def)

lemma labelled_only:
  "impostorAttempts [a \<leftarrow> attempts. label a \<noteq> None] = impostorAttempts attempts"
  "genuineAttempts [a \<leftarrow> attempts. label a \<noteq> None] = genuineAttempts attempts"
  by (auto simp: impostorAttempts_def genuineAttempts_def intro: filter_cong)

text \<open>
  C1. FAR is the number of impostor-labelled attempts that passed over the number of
  impostor-labelled attempts, FRR the number of genuine-labelled attempts that failed
  over the number of genuine-labelled attempts, each 0 when its class is empty; both are
  finite numbers, the EER estimate is half their sum, and removing the unlabeled
  attempts changes none of the three.
\<close>

theorem analytics_rates:
  "far attempts =
     Fin (if length [a \<leftarrow> attempts. label a = Some impostor] = 0 then 0
          else real (length [a \<leftarrow> attempts. label a = Some impostor \<and> passed a])
               / real (length [a \<leftarrow> attempts. label a = Some impostor]))
   \<and> frr attempts =
     Fin (if length [a \<leftarrow> attempts. label a = Some genuine] = 0 then 0
          else real (length [a \<leftarrow> attempts. label a = Some genuine \<and> \<not> passed a])
               / real (length [a \<leftarrow> attempts. label a = Some genuine]))
   \<and> (\<exists>x y. far attempts = Fin x \<and> frr attempts = Fin y \<and> eer attempts = Fin ((x + y) / 2))
   \<and> far [a \<leftarrow> attempts. label a \<noteq> None] = far attempts
   \<and> frr [a \<leftarrow> attempts. label a \<noteq> None] = frr attempts
   \<and> eer [a \<leftarrow> attempts. label a \<noteq> None] = eer attempts"
proof (intro conjI)
  show "far attempts =
     Fin (if length [a \<leftarrow> attempts. label a = Some impostor] = 0 then 0
          else real (length [a \<leftarrow> attempts. label a = Some impostor \<and> passed a])
               / real (length [a \<leftarrow> attempts. label a = Some impostor]))"
    by (rule far_count)
  show "frr attempts =
     Fin (if length [a \<leftarrow> attempts. label a = Some genuine] = 0 then 0
          else real (length [a \<leftarrow> attempts. label a = Some genuine \<and> \<not> passed a])
               / real (length [a \<leftarrow> attempts. label a = Some genuine]))"
    by (rule frr_count)
  obtain x y where xy: "far attempts = Fin x" "frr attempts = Fin y"
    using far_count frr_count by blast
  then have "eer attempts = Fin ((x + y) / 2)"
    by (simp add: eer_def)
  with xy show "\<exists>x y. far attempts = Fin x \<and> frr attempts = Fin y \<and> eer attempts = Fin ((x + y) / 2)"
    by blast
  show f: "far [a \<leftarrow> attempts. label a \<noteq> None] = far attempts"
    by (simp only: far_def labelled_only)
  show g: "frr [a \<leftarrow> attempts. label a \<noteq> None] = frr attempts"
    by (simp only: frr_def labelled_only)
  show "eer [a \<leftarrow> attempts. label a \<noteq> None] = eer attempts"
    by (simp only: eer_def f g)
qed

theorem analytics_rates_witness:
  "far sampleAttempts = Fin 0.5 \<and> frr sampleAttempts = Fin 0.5 \<and> eer sampleAttempts = Fin 0.5
   \<and> far [] = Fin 0 \<and> frr [] = Fin 0 \<and> eer [] = Fin 0"
proof -
  have 1: "far sampleAttempts = Fin 0.5" and 2: "frr sampleAttempts = Fin 0.5"
    using analytics_rates [of sampleAttempts]
    by (simp_all add: sampleAttempts_def mkAttempt_def)
  from analytics_rates [of sampleAttempts] 1 2 have 3: "eer sampleAttempts = Fin 0.5"
    by auto
  have 4: "far [] = Fin 0" and 5: "frr [] = Fin 0"
    using analytics_rates [of "[]"] by simp_all
  from analytics_rates [of "[]"] 4 5 have "eer [] = Fin 0"
    by auto
  with 1 2 3 4 5 show ?thesis by simp
qed

section \<open>Properties of the Participant Aggregator\<close>

lemma truthyString_iff: "truthyString v \<longleftrightarrow> (\<exists>u. v = Some u \<and> u \<noteq> [])"
  by (cases v) (simp_all add: truthyString_def)

lemma groupSession_keys:
  "map fst (groupSession getTime grouped session) =
     (if truthyString (fitbitUserId session)
      then (if the (fitbitUserId session) \<in> set (map fst grouped) then map fst grouped
            else map fst grouped @ [the (fitbitUserId session)])
      else map fst grouped)"
  by (simp add: groupSession_def Let_def update_keys)

lemma groupSession_distinct:
  "distinct (map fst grouped) \<Longrightarrow> distinct (map fst (groupSession getTime grouped session))"
  by (simp add: groupSession_keys)

lemma groupSession_key_set:
  "fst ` set (groupSession getTime grouped session) =
     fst ` set grouped \<union> {u. u \<noteq> [] \<and> fitbitUserId session = Some u}"
proof (cases "truthyString (fitbitUserId session)")
  case True
  then obtain u where u: "fitbitUserId session = Some u" "u \<noteq> []"
    by (auto simp: truthyString_iff)
  then have e: "{v. v \<noteq> [] \<and> fitbitUserId session = Some v} = {u}"
    by auto
  have "set (map fst (groupSession getTime grouped session)) = insert u (set (map fst grouped))"
    unfolding groupSession_keys using True u by auto
  then have k: "fst ` set (groupSession getTime grouped session) = insert u (fst ` set grouped)"
    by simp
  show ?thesis unfolding e k by simp
next
  case False
  then have e: "{v. v \<noteq> [] \<and> fitbitUserId session = Some v} = {}"
    by (auto simp: truthyString_iff)
  have "set (map fst (groupSession getTime grouped session)) = set (map fst grouped)"
    unfolding groupSession_keys using False by simp
  then have k: "fst ` set (groupSession getTime grouped session) = fst ` set grouped"
    by simp
  show ?thesis unfolding e k by simp
qed

lemma identities_Cons:
  "{u. u \<noteq> [] \<and> Some u \<in> fitbitUserId ` set (session # sessions)} =
     {u. u \<noteq> [] \<and> fitbitUserId session = Some u}
     \<union> {u. u \<noteq> [] \<and> Some u \<in> fitbitUserId ` set sessions}"
  by auto

lemma foldl_groupSession_keys:
  "distinct (map fst grouped) \<Longrightarrow>
     distinct (map fst (foldl (groupSession getTime) grouped sessions))
     \<and> fst ` set (foldl (groupSession getTime) grouped sessions) =
         fst ` set grouped \<union> {u. u \<noteq> [] \<and> Some u \<in> fitbitUserId ` set sessions}"
proof (induction sessions arbitrary: grouped)
  case Nil
  then show ?case by simp
next
  case (Cons session sessions)
  from Cons.prems have "distinct (map fst (groupSession getTime grouped session))"
    by (rule groupSession_distinct)
  from Cons.IH [OF this] show ?case
    by (simp only: foldl_Cons groupSession_key_set identities_Cons Un_assoc)
qed

lemma build_ids:
  "map participant_id (buildParticipantsFromSessions getTime sessions)
     = map fst (foldl (groupSession getTime) [] sessions)"
  by (simp add: buildParticipantsFromSessions_def case_prod_unfold comp_def)

text \<open>
  C7. The roster has exactly one entry for each distinct non-empty participant identity
  that occurs in the session list, and none else: its identities are pairwise
  distinct, they are the non-empty identities of the list, and its length is their
  number. Records without identity or with the empty identity add nothing.
\<close>

theorem roster_one_per_identity:
  "distinct (map participant_id (buildParticipantsFromSessions getTime sessions))
   \<and> set (map participant_id (buildParticipantsFromSessions getTime sessions))
       = {u. u \<noteq> [] \<and> Some u \<in> fitbitUserId ` set sessions}
   \<and> length (buildParticipantsFromSessions getTime sessions)
       = card {u. u \<noteq> [] \<and> Some u \<in> fitbitUserId ` set sessions}"
proof -
  have d: "distinct (map participant_id (buildParticipantsFromSessions getTime sessions))"
    and s: "set (map participant_id (buildParticipantsFromSessions getTime sessions))
            = {u. u \<noteq> [] \<and> Some u \<in> fitbitUserId ` set sessions}"
    using foldl_groupSession_keys [of "[]" getTime sessions]
    by (simp_all add: build_ids)
  have "length (buildParticipantsFromSessions getTime sessions)
        = length (map participant_id (buildParticipantsFromSessions getTime sessions))"
    by simp
  also have "\<dots> = card (set (map participant_id (buildParticipantsFromSessions getTime sessions)))"
    using d by (simp only: distinct_card)
  finally show ?thesis using d s by simp
qed

lemma mkSession_fitbitUserId: "fitbitUserId (mkSession uid start) = uid"
  by (simp add: mkSession_def adaptCollectResponse_def Let_def)

theorem roster_one_per_identity_witness:
  "map fitbitUserId sampleSessions = [Some ''u2'', None, Some '''', Some ''u1'', Some ''u2'']
   \<and> set (map participant_id (buildParticipantsFromSessions sampleGetTime sampleSessions))
       = {''u1'', ''u2''}
   \<and> length (buildParticipantsFromSessions sampleGetTime sampleSessions) = 2"
proof -
  have ids: "map fitbitUserId sampleSessions = [Some ''u2'', None, Some '''', Some ''u1'', Some ''u2'']"
    by (simp add: sampleSessions_def mkSession_fitbitUserId)
  have "fitbitUserId ` set sampleSessions = {Some ''u2'', None, Some '''', Some ''u1''}"
    by (auto simp: sampleSessions_def mkSession_fitbitUserId)
  then have e: "{u. u \<noteq> [] \<and> Some u \<in> fitbitUserId ` set sampleSessions} = {''u1'', ''u2''}"
    by auto
  have c: "card {''u1'', ''u2''} = 2"
    by simp
  from roster_one_per_identity [of sampleGetTime sampleSessions] ids show ?thesis
    by (simp only: e c)
qed

section \<open>Properties of the Continuous-Monitor Summarizer\<close>

lemma summary_empty:
  "samples r = [] \<Longrightarrow>
   summary fmt (Some r) =
     Some \<lparr> count = 0, passCount = 0, failCount = 0, passRate = Fin 0, windowRange = None \<rparr>"
  by (simp add: summary_def)

lemma summary_nonempty:
  assumes "samples r \<noteq> []"
  shows "summary fmt (Some r) =
     (case fmt (windowStartUtc (hd (samples r))) of
        None \<Rightarrow> None
      | Some a \<Rightarrow>
          (case fmt (windowEndUtc (last (samples r))) of
             None \<Rightarrow> None
           | Some b \<Rightarrow>
               Some \<lparr> count = length (samples r),
                      passCount = length [x \<leftarrow> samples r. passes x],
                      failCount = int (length (samples r)) - int (length [x \<leftarrow> samples r. passes x]),
                      passRate = Fin (real (length [x \<leftarrow> samples r. passes x]) / real (length (samples r))),
                      windowRange = Some (a @ '' - '' @ b) \<rparr>))"
  using assms by (simp add: summary_def Let_def hd_conv_nth last_conv_nth split: option.split)

lemma passes_count: "length [x \<leftarrow> xs. passes x] = length (filter id (map passes xs))"
  by (simp add: filter_map comp_def)

text \<open>
  C9. A summary, when the memo yields one, has \<open>count\<close> the number of samples,
  \<open>passCount\<close> the number of samples that pass, \<open>failCount\<close> their difference and
  \<open>passRate\<close> the quotient, 0 for the empty sample set. It yields none only when the
  sample set is not empty and the date formatter rejects the first window's start or
  the last window's end. Samples that pass, fail and pass give the rate 2/3 and one
  failure.
\<close>

theorem summary_counts:
  "(case summary fmt (Some r) of
      Some s \<Rightarrow>
        count s = length (samples r)
        \<and> passCount s = length [x \<leftarrow> samples r. passes x]
        \<and> failCount s = int (count s) - int (passCount s)
        \<and> passCount s \<le> count s
        \<and> passRate s = Fin (if samples r = [] then 0 else real (passCount s) / real (count s))
    | None \<Rightarrow>
        samples r \<noteq> []
        \<and> (fmt (windowStartUtc (hd (samples r))) = None \<or> fmt (windowEndUtc (last (samples r))) = None))
   \<and> (samples r = []
        \<or> (fmt (windowStartUtc (hd (samples r))) \<noteq> None \<and> fmt (windowEndUtc (last (samples r))) \<noteq> None)
       \<longrightarrow> summary fmt (Some r) \<noteq> None)
   \<and> (map passes (samples r) = [True, False, True] \<longrightarrow>
        (\<forall>s. summary fmt (Some r) = Some s \<longrightarrow> passRate s = Fin (2 / 3) \<and> failCount s = 1))"
proof (intro conjI impI allI)
  show "case summary fmt (Some r) of
      Some s \<Rightarrow>
        count s = length (samples r)
        \<and> passCount s = length [x \<leftarrow> samples r. passes x]
        \<and> failCount s = int (count s) - int (passCount s)
        \<and> passCount s \<le> count s
        \<and> passRate s = Fin (if samples r = [] then 0 else real (passCount s) / real (count s))
    | None \<Rightarrow>
        samples r \<noteq> []
        \<and> (fmt (windowStartUtc (hd (samples r))) = None \<or> fmt (windowEndUtc (last (samples r))) = None)"
  proof (cases "samples r = []")
    case True
    then show ?thesis by (simp add: summary_empty)
  next
    case False
    then show ?thesis by (simp add: summary_nonempty split: option.split)
  qed
next
  assume "samples r = []
        \<or> (fmt (windowStartUtc (hd (samples r))) \<noteq> None \<and> fmt (windowEndUtc (last (samples r))) \<noteq> None)"
  then show "summary fmt (Some r) \<noteq> None"
    by (cases "samples r = []") (auto simp: summary_empty summary_nonempty)
next
  fix s
  assume p: "map passes (samples r) = [True, False, True]" and s: "summary fmt (Some r) = Some s"
  from p have n: "samples r \<noteq> []" by auto
  from p have len: "length (samples r) = 3"
    by (metis length_map length_Cons list.size(3) numeral_3_eq_3)
  from p have pc: "length [x \<leftarrow> samples r. passes x] = 2"
    by (simp add: passes_count)
  from s n show "passRate s = Fin (2 / 3)"
    by (auto simp: summary_nonempty len pc split: option.splits)
  from s n show "failCount s = 1"
    by (auto simp: summary_nonempty len pc split: option.splits)
qed

theorem summary_counts_witness:
  "summary sampleFmt (Some threeSamples) =
     Some \<lparr> count = 3, passCount = 2, failCount = 1, passRate = Fin (2 / 3),
            windowRange = Some ''w1s - w3e'' \<rparr>"
proof -
  have p: "map passes (samples threeSamples) = [True, False, True]"
    by (simp add: threeSamples_def)
  have f: "sampleFmt (windowStartUtc (hd (samples threeSamples))) = Some ''w1s''"
    "sampleFmt (windowEndUtc (last (samples threeSamples))) = Some ''w3e''"
    by (simp_all add: threeSamples_def sampleFmt_def)
  from summary_counts [where fmt = sampleFmt and r = threeSamples] f
  obtain s where s: "summary sampleFmt (Some threeSamples) = Some s"
    by auto
  with summary_counts [where fmt = sampleFmt and r = threeSamples] p
  have r: "passRate s = Fin (2 / 3)" and fc: "failCount s = 1"
    by blast+
  from summary_counts [where fmt = sampleFmt and r = threeSamples] s
  have c: "count s = 3" and pc: "passCount s = 2"
    by (simp_all add: threeSamples_def)
  have w: "windowRange s = Some ''w1s - w3e''"
    using s by (auto simp: summary_nonempty threeSamples_def sampleFmt_def)
  from c pc fc r w have "s = \<lparr> count = 3, passCount = 2, failCount = 1, passRate = Fin (2 / 3),
            windowRange = Some ''w1s - w3e'' \<rparr>"
    by (cases s) simp
  with s show ?thesis by simp
qed

end
